theory Spec2Isabelle
  imports Complex_Main
begin

section \<open>Rocket flight dynamics (src/rocket-aero.py, class Rocket)\<close>

text \<open>
  The flight-dynamics core of \<^verbatim>\<open>rocket-aero.py\<close> is the class \<^verbatim>\<open>Rocket\<close>: its
  constructor, the aerodynamic helpers, \<^verbatim>\<open>update\<close> and \<^verbatim>\<open>get_telemetry\<close>.
  Python floats are idealised as real numbers, so every statement below is about
  exact arithmetic. The numpy arrays of length three are triples. The smoke trail
  and the particle system are write-only visual effects (\<^verbatim>\<open>trail.add_point\<close>,
  \<^verbatim>\<open>particles.emit\<close>, \<^verbatim>\<open>particles.update\<close>): no field of the rocket reads them, and
  they are left out of the state.
\<close>

subsection \<open>Vectors and matrices (numpy)\<close>

type_synonym vec3 = "real \<times> real \<times> real"
type_synonym mat3 = "vec3 \<times> vec3 \<times> vec3"

definition vx :: "vec3 \<Rightarrow> real" where "vx v = fst v"
definition vy :: "vec3 \<Rightarrow> real" where "vy v = fst (snd v)"
definition vz :: "vec3 \<Rightarrow> real" where "vz v = snd (snd v)"

definition vadd :: "vec3 \<Rightarrow> vec3 \<Rightarrow> vec3" where
  "vadd u v = (vx u + vx v, vy u + vy v, vz u + vz v)"

definition vneg :: "vec3 \<Rightarrow> vec3" where
  "vneg v = (- vx v, - vy v, - vz v)"

definition smul :: "real \<Rightarrow> vec3 \<Rightarrow> vec3" where
  "smul k v = (k * vx v, k * vy v, k * vz v)"

definition vdiv :: "vec3 \<Rightarrow> real \<Rightarrow> vec3" where
  "vdiv v k = (vx v / k, vy v / k, vz v / k)"

definition dot :: "vec3 \<Rightarrow> vec3 \<Rightarrow> real" where
  "dot u v = vx u * vx v + vy u * vy v + vz u * vz v"

definition cross :: "vec3 \<Rightarrow> vec3 \<Rightarrow> vec3" where
  "cross u v = (vy u * vz v - vz u * vy v,
                vz u * vx v - vx u * vz v,
                vx u * vy v - vy u * vx v)"

text \<open>\<^verbatim>\<open>np.linalg.norm\<close> of a vector of length three.\<close>

definition vnorm :: "vec3 \<Rightarrow> real" where
  "vnorm v = sqrt ((vx v)\<^sup>2 + (vy v)\<^sup>2 + (vz v)\<^sup>2)"

definition row0 :: "mat3 \<Rightarrow> vec3" where "row0 m = fst m"
definition row1 :: "mat3 \<Rightarrow> vec3" where "row1 m = fst (snd m)"
definition row2 :: "mat3 \<Rightarrow> vec3" where "row2 m = snd (snd m)"

definition col0 :: "mat3 \<Rightarrow> vec3" where "col0 m = (vx (row0 m), vx (row1 m), vx (row2 m))"
definition col1 :: "mat3 \<Rightarrow> vec3" where "col1 m = (vy (row0 m), vy (row1 m), vy (row2 m))"
definition col2 :: "mat3 \<Rightarrow> vec3" where "col2 m = (vz (row0 m), vz (row1 m), vz (row2 m))"

text \<open>The operator \<^verbatim>\<open>@\<close> on a matrix and a vector, and on two matrices.\<close>

definition matvec :: "mat3 \<Rightarrow> vec3 \<Rightarrow> vec3" where
  "matvec m v = (dot (row0 m) v, dot (row1 m) v, dot (row2 m) v)"

definition matmul :: "mat3 \<Rightarrow> mat3 \<Rightarrow> mat3" where
  "matmul a b =
     ((dot (row0 a) (col0 b), dot (row0 a) (col1 b), dot (row0 a) (col2 b)),
      (dot (row1 a) (col0 b), dot (row1 a) (col1 b), dot (row1 a) (col2 b)),
      (dot (row2 a) (col0 b), dot (row2 a) (col1 b), dot (row2 a) (col2 b)))"

subsection \<open>Scalar helpers (math, builtins)\<close>

definition radians :: "real \<Rightarrow> real" where "radians d = d * pi / 180"
definition degrees :: "real \<Rightarrow> real" where "degrees r = r * 180 / pi"

text \<open>\<^verbatim>\<open>np.clip(x, lo, hi)\<close>.\<close>

definition clip :: "real \<Rightarrow> real \<Rightarrow> real \<Rightarrow> real" where
  "clip x lo hi = min (max x lo) hi"

text \<open>Python's \<^verbatim>\<open>%\<close> on floats takes the sign of the divisor: \<^verbatim>\<open>x % m = x - m * floor(x / m)\<close>.\<close>

definition pymod :: "real \<Rightarrow> real \<Rightarrow> real" where
  "pymod x m = x - m * of_int \<lfloor>x / m\<rfloor>"

subsection \<open>The rocket's state (Rocket.__init__)\<close>

record rocket =
  mass :: real
  fuel_mass :: real
  dry_mass :: real
  velocity :: vec3
  position :: vec3
  angular_velocity :: vec3
  thrust :: real
  max_thrust :: real
  drag_coefficient :: real
  reference_area :: real
  engine_temperature :: real
  structural_stress :: real
  fuel_consumption_rate :: real
  max_q :: real
  pitch :: real
  yaw :: real
  roll :: real

definition init_rocket :: rocket where
  "init_rocket =
     \<lparr> mass = 5000, fuel_mass = 3000, dry_mass = 2000,
       velocity = (0, 0, 0), position = (0, 500, 0), angular_velocity = (0, 0, 0),
       thrust = 75000, max_thrust = 200000, drag_coefficient = 45 / 100,
       reference_area = 10, engine_temperature = 300, structural_stress = 0,
       fuel_consumption_rate = 5, max_q = 0, pitch = 0, yaw = 0, roll = 0 \<rparr>"

subsection \<open>Rotation (get_rotation_matrix, get_thrust_vector)\<close>

definition get_rotation_matrix :: "rocket \<Rightarrow> mat3" where
  "get_rotation_matrix s =
     (let pitch_rad = radians (pitch s);
          yaw_rad = radians (yaw s);
          roll_rad = radians (roll s);
          cos_p = cos pitch_rad; sin_p = sin pitch_rad;
          cos_y = cos yaw_rad; sin_y = sin yaw_rad;
          cos_r = cos roll_rad; sin_r = sin roll_rad;
          Rx = ((1, 0, 0), (0, cos_p, - sin_p), (0, sin_p, cos_p));
          Ry = ((cos_y, 0, sin_y), (0, 1, 0), (- sin_y, 0, cos_y));
          Rz = ((cos_r, - sin_r, 0), (sin_r, cos_r, 0), (0, 0, 1))
      in matmul (matmul Ry Rx) Rz)"

definition get_thrust_vector :: "rocket \<Rightarrow> vec3" where
  "get_thrust_vector s =
     (let local_thrust = (0, 1, 0);
          rotation_matrix = get_rotation_matrix s
      in matvec rotation_matrix local_thrust)"

subsection \<open>Aerodynamics\<close>

definition calculate_drag :: "rocket \<Rightarrow> real \<Rightarrow> vec3" where
  "calculate_drag s air_density =
     (let v_magnitude = vnorm (velocity s)
      in if v_magnitude > 1 / 10 then
           (let drag_force_magnitude =
                  (1 / 2) * air_density * v_magnitude\<^sup>2 * drag_coefficient s * reference_area s;
                drag_direction = vdiv (vneg (velocity s)) v_magnitude
            in smul drag_force_magnitude drag_direction)
         else (0, 0, 0))"

definition calculate_lift :: "rocket \<Rightarrow> real \<Rightarrow> vec3" where
  "calculate_lift s air_density =
     (let v_magnitude = vnorm (velocity s)
      in if v_magnitude > 1 then
           (let thrust_dir = get_thrust_vector s;
                vel_normalized = vdiv (velocity s) v_magnitude;
                cross_product = cross vel_normalized thrust_dir;
                cross_magnitude = vnorm cross_product
            in if cross_magnitude > 1 / 100 then
                 (let angle_of_attack = arcsin (min cross_magnitude 1);
                      lift_coefficient = 2 * pi * sin angle_of_attack;
                      lift_magnitude =
                        (1 / 2) * air_density * v_magnitude\<^sup>2 * \<bar>lift_coefficient\<bar> * reference_area s;
                      lift_direction = cross (velocity s) cross_product;
                      lift_dir_magnitude = vnorm lift_direction
                  in if lift_dir_magnitude > 0 then
                       smul lift_magnitude (vdiv lift_direction lift_dir_magnitude)
                     else (0, 0, 0))
               else (0, 0, 0))
         else (0, 0, 0))"

definition calculate_dynamic_pressure :: "rocket \<Rightarrow> real \<Rightarrow> real" where
  "calculate_dynamic_pressure s air_density =
     (let v_magnitude = vnorm (velocity s)
      in (1 / 2) * air_density * v_magnitude\<^sup>2)"

definition get_angle_of_attack :: "rocket \<Rightarrow> real" where
  "get_angle_of_attack s =
     (let v_magnitude = vnorm (velocity s)
      in if v_magnitude > 1 / 10 then
           (let thrust_dir = get_thrust_vector s;
                vel_normalized = vdiv (velocity s) v_magnitude;
                dot_product = dot thrust_dir vel_normalized
            in degrees (arccos (clip dot_product (- 1) 1)))
         else 0)"

subsection \<open>Telemetry (get_telemetry)\<close>

text \<open>
  The dictionary returned by \<^verbatim>\<open>get_telemetry\<close> has a fixed set of keys; it is a record
  whose field \<open>tel_k\<close> is the value under the key \<^verbatim>\<open>'k'\<close>.
\<close>

record telemetry =
  tel_drag :: real
  tel_lift :: real
  tel_thrust :: real
  tel_velocity :: real
  tel_altitude :: real
  tel_aoa :: real
  tel_dynamic_pressure :: real
  tel_max_q :: real
  tel_g_force :: real
  tel_temperature :: real
  tel_fuel :: real
  tel_twr :: real
  tel_mach :: real
  tel_thrust_direction :: vec3

definition get_telemetry :: "rocket \<Rightarrow> telemetry" where
  "get_telemetry s =
     (let v_magnitude = vnorm (velocity s);
          mach_number = v_magnitude / 343;
          thrust_direction = get_thrust_vector s;
          drag = calculate_drag s (1225 / 1000);
          lift = calculate_lift s (1225 / 1000);
          thrust_vector = smul (thrust s) thrust_direction;
          aoa = get_angle_of_attack s;
          dynamic_pressure = calculate_dynamic_pressure s (1225 / 1000);
          twr = (if mass s > 0 then thrust s / (mass s * (981 / 100)) else 0)
      in \<lparr> tel_drag = vnorm drag,
           tel_lift = vnorm lift,
           tel_thrust = vnorm thrust_vector,
           tel_velocity = v_magnitude,
           tel_altitude = vy (position s),
           tel_aoa = aoa,
           tel_dynamic_pressure = dynamic_pressure,
           tel_max_q = max_q s,
           tel_g_force = structural_stress s,
           tel_temperature = engine_temperature s,
           tel_fuel = fuel_mass s,
           tel_twr = twr,
           tel_mach = mach_number,
           tel_thrust_direction = thrust_direction \<rparr>)"

subsection \<open>One simulation step (update)\<close>

text \<open>
  \<^verbatim>\<open>self.thrust / self.max_thrust\<close> divides two Python floats and raises
  \<^verbatim>\<open>ZeroDivisionError\<close> when \<^verbatim>\<open>max_thrust\<close> is zero. The other divisions of the
  class are guarded or are numpy divisions, which do not raise.
\<close>

datatype py_error = ZeroDivisionError

text \<open>Lines 178 to 186: fuel burn, mass and flameout.\<close>

definition burn_fuel :: "rocket \<Rightarrow> real \<Rightarrow> rocket" where
  "burn_fuel s dt =
     (if thrust s > 0 \<and> fuel_mass s > 0 then
        (let fuel_used = fuel_consumption_rate s * dt;
             s1 = s\<lparr>fuel_mass := max 0 (fuel_mass s - fuel_used)\<rparr>;
             s2 = s1\<lparr>mass := dry_mass s1 + fuel_mass s1\<rparr>
         in if fuel_mass s2 \<le> 0 then s2\<lparr>thrust := 0\<rparr> else s2)
      else s\<lparr>mass := dry_mass s + fuel_mass s\<rparr>)"

text \<open>Lines 188 to 196: the Euler angles advance and wrap, the angular velocity decays.\<close>

definition advance_orientation :: "rocket \<Rightarrow> real \<Rightarrow> rocket" where
  "advance_orientation s dt =
     s\<lparr>pitch := pymod (pitch s + vx (angular_velocity s) * dt) 360,
       yaw := pymod (yaw s + vy (angular_velocity s) * dt) 360,
       roll := pymod (roll s + vz (angular_velocity s) * dt) 360,
       angular_velocity := smul (92 / 100) (angular_velocity s)\<rparr>"

text \<open>Lines 198 to 205: the sum of thrust, drag, lift and weight.\<close>

definition total_force :: "rocket \<Rightarrow> real \<Rightarrow> real \<Rightarrow> vec3" where
  "total_force s air_density gravity =
     (let thrust_direction = get_thrust_vector s;
          drag = calculate_drag s air_density;
          lift = calculate_lift s air_density;
          thrust_vector = smul (thrust s) thrust_direction;
          gravity_force = (0, - gravity * mass s, 0)
      in vadd (vadd (vadd thrust_vector drag) lift) gravity_force)"

text \<open>Lines 207 to 210.\<close>

definition acceleration :: "rocket \<Rightarrow> real \<Rightarrow> real \<Rightarrow> vec3" where
  "acceleration s air_density gravity =
     (if mass s > 0 then vdiv (total_force s air_density gravity) (mass s)
      else (0, 0, 0))"

text \<open>Lines 212 to 219: the watermark of the dynamic pressure and the load factor.\<close>

definition record_loads :: "rocket \<Rightarrow> real \<Rightarrow> real \<Rightarrow> rocket" where
  "record_loads s air_density gravity =
     (let dynamic_pressure = calculate_dynamic_pressure s air_density;
          s1 = s\<lparr>max_q := max (max_q s) dynamic_pressure\<rparr>;
          force_magnitude = vnorm (total_force s air_density gravity)
      in if mass s1 > 0 then
           s1\<lparr>structural_stress := (force_magnitude / mass s1) / (981 / 100)\<rparr>
         else s1\<lparr>structural_stress := 0\<rparr>)"

text \<open>Lines 223 and 224: velocity first, then position with the new velocity.\<close>

definition euler_step :: "rocket \<Rightarrow> vec3 \<Rightarrow> real \<Rightarrow> rocket" where
  "euler_step s a dt =
     (let s1 = s\<lparr>velocity := vadd (velocity s) (smul dt a)\<rparr>
      in s1\<lparr>position := vadd (position s1) (smul dt (velocity s1))\<rparr>)"

text \<open>
  Lines 176 to 224: everything before the ground test. The second component is the
  exception raised at line 221, if any; the first is the state of the object at that
  moment, or after line 224.
\<close>

definition integrate :: "rocket \<Rightarrow> real \<Rightarrow> real \<Rightarrow> real \<Rightarrow> rocket \<times> py_error option" where
  "integrate s dt air_density gravity =
     (let s1 = burn_fuel s dt;
          s2 = advance_orientation s1 dt;
          a = acceleration s2 air_density gravity;
          s3 = record_loads s2 air_density gravity
      in if max_thrust s3 = 0 then (s3, Some ZeroDivisionError)
         else
           (let s4 = s3\<lparr>engine_temperature := 300 + (thrust s3 / max_thrust s3) * 2000\<rparr>
            in (euler_step s4 a dt, None)))"

text \<open>Lines 226 to 231: the ground at height zero.\<close>

definition ground_collision :: "rocket \<Rightarrow> rocket" where
  "ground_collision s =
     (if vy (position s) < 0 then
        (let s1 = s\<lparr>position := (vx (position s), 0, vz (position s))\<rparr>
         in if vy (velocity s1) < 0 then
              s1\<lparr>velocity := (vx (velocity s1) * (7 / 10),
                               - vy (velocity s1) * (3 / 10),
                               vz (velocity s1) * (7 / 10))\<rparr>
            else s1)
      else s)"

text \<open>
  \<^verbatim>\<open>update\<close> returns the state of the object after the call together with what the call
  returned: the telemetry, or the exception it raised.
\<close>

definition update :: "rocket \<Rightarrow> real \<Rightarrow> real \<Rightarrow> real \<Rightarrow> rocket \<times> (py_error + telemetry)" where
  "update s dt air_density gravity =
     (if dt \<le> 0 then (s, Inr (get_telemetry s))
      else
        (case integrate s dt air_density gravity of
           (s1, Some e) \<Rightarrow> (s1, Inl e)
         | (s1, None) \<Rightarrow>
             (let s2 = ground_collision s1 in (s2, Inr (get_telemetry s2)))))"

text \<open>The driver's loop calls \<^verbatim>\<open>update\<close> once per frame on the same object.\<close>

fun run :: "nat \<Rightarrow> rocket \<Rightarrow> real \<Rightarrow> real \<Rightarrow> real \<Rightarrow> rocket" where
  "run 0 s dt air_density gravity = s"
| "run (Suc n) s dt air_density gravity =
     run n (fst (update s dt air_density gravity)) dt air_density gravity"

text \<open>A sequence of frames, each with its own time step, air density and gravity.\<close>

fun run_ticks :: "rocket \<Rightarrow> (real \<times> real \<times> real) list \<Rightarrow> rocket" where
  "run_ticks s [] = s"
| "run_ticks s ((dt, air_density, gravity) # ts) =
     run_ticks (fst (update s dt air_density gravity)) ts"

text \<open>
  None of the next \<open>n\<close> frames reaches line 227: the height computed at line 224 is
  never below zero.
\<close>

fun no_ground_contact :: "nat \<Rightarrow> rocket \<Rightarrow> real \<Rightarrow> real \<Rightarrow> real \<Rightarrow> bool" where
  "no_ground_contact 0 s dt air_density gravity = True"
| "no_ground_contact (Suc n) s dt air_density gravity =
     (\<not> vy (position (fst (integrate s dt air_density gravity))) < 0 \<and>
      no_ground_contact n (fst (update s dt air_density gravity)) dt air_density gravity)"

section \<open>Properties\<close>

subsection \<open>What each phase of a step leaves alone\<close>

lemma burn_fuel_other [simp]:
  "dry_mass (burn_fuel s dt) = dry_mass s"
  "max_thrust (burn_fuel s dt) = max_thrust s"
  "max_q (burn_fuel s dt) = max_q s"
  "velocity (burn_fuel s dt) = velocity s"
  "position (burn_fuel s dt) = position s"
  "pitch (burn_fuel s dt) = pitch s"
  "yaw (burn_fuel s dt) = yaw s"
  "roll (burn_fuel s dt) = roll s"
  "angular_velocity (burn_fuel s dt) = angular_velocity s"
  "reference_area (burn_fuel s dt) = reference_area s"
  "drag_coefficient (burn_fuel s dt) = drag_coefficient s"
  "fuel_consumption_rate (burn_fuel s dt) = fuel_consumption_rate s"
  by (simp_all add: burn_fuel_def Let_def)

lemma burn_fuel_mass: "mass (burn_fuel s dt) = dry_mass s + fuel_mass (burn_fuel s dt)"
  by (simp add: burn_fuel_def Let_def)

lemma burn_fuel_thrust: "thrust (burn_fuel s dt) = thrust s \<or> thrust (burn_fuel s dt) = 0"
  by (simp add: burn_fuel_def Let_def)

lemma burn_fuel_fuel:
  "fuel_mass (burn_fuel s dt) =
     (if thrust s > 0 \<and> fuel_mass s > 0
      then max 0 (fuel_mass s - fuel_consumption_rate s * dt)
      else fuel_mass s)"
  by (simp add: burn_fuel_def Let_def)

lemma advance_orientation_fields [simp]:
  "mass (advance_orientation s dt) = mass s"
  "fuel_mass (advance_orientation s dt) = fuel_mass s"
  "dry_mass (advance_orientation s dt) = dry_mass s"
  "thrust (advance_orientation s dt) = thrust s"
  "max_thrust (advance_orientation s dt) = max_thrust s"
  "max_q (advance_orientation s dt) = max_q s"
  "velocity (advance_orientation s dt) = velocity s"
  "position (advance_orientation s dt) = position s"
  "reference_area (advance_orientation s dt) = reference_area s"
  "drag_coefficient (advance_orientation s dt) = drag_coefficient s"
  "fuel_consumption_rate (advance_orientation s dt) = fuel_consumption_rate s"
  by (simp_all add: advance_orientation_def)

lemma record_loads_fields [simp]:
  "mass (record_loads s r g) = mass s"
  "fuel_mass (record_loads s r g) = fuel_mass s"
  "dry_mass (record_loads s r g) = dry_mass s"
  "thrust (record_loads s r g) = thrust s"
  "max_thrust (record_loads s r g) = max_thrust s"
  "velocity (record_loads s r g) = velocity s"
  "position (record_loads s r g) = position s"
  "pitch (record_loads s r g) = pitch s"
  "yaw (record_loads s r g) = yaw s"
  "roll (record_loads s r g) = roll s"
  "reference_area (record_loads s r g) = reference_area s"
  "drag_coefficient (record_loads s r g) = drag_coefficient s"
  "fuel_consumption_rate (record_loads s r g) = fuel_consumption_rate s"
  by (simp_all add: record_loads_def Let_def)

lemma record_loads_max_q:
  "max_q (record_loads s r g) = max (max_q s) (calculate_dynamic_pressure s r)"
  by (simp add: record_loads_def Let_def)

lemma euler_step_fields [simp]:
  "mass (euler_step s a dt) = mass s"
  "fuel_mass (euler_step s a dt) = fuel_mass s"
  "dry_mass (euler_step s a dt) = dry_mass s"
  "thrust (euler_step s a dt) = thrust s"
  "max_thrust (euler_step s a dt) = max_thrust s"
  "max_q (euler_step s a dt) = max_q s"
  "pitch (euler_step s a dt) = pitch s"
  "yaw (euler_step s a dt) = yaw s"
  "roll (euler_step s a dt) = roll s"
  "reference_area (euler_step s a dt) = reference_area s"
  "drag_coefficient (euler_step s a dt) = drag_coefficient s"
  "fuel_consumption_rate (euler_step s a dt) = fuel_consumption_rate s"
  by (simp_all add: euler_step_def Let_def)

lemma ground_collision_fields [simp]:
  "mass (ground_collision s) = mass s"
  "fuel_mass (ground_collision s) = fuel_mass s"
  "dry_mass (ground_collision s) = dry_mass s"
  "thrust (ground_collision s) = thrust s"
  "max_thrust (ground_collision s) = max_thrust s"
  "max_q (ground_collision s) = max_q s"
  "pitch (ground_collision s) = pitch s"
  "yaw (ground_collision s) = yaw s"
  "roll (ground_collision s) = roll s"
  "reference_area (ground_collision s) = reference_area s"
  "drag_coefficient (ground_collision s) = drag_coefficient s"
  "fuel_consumption_rate (ground_collision s) = fuel_consumption_rate s"
  by (simp_all add: ground_collision_def Let_def)

lemma integrate_fields:
  "mass (fst (integrate s dt r g)) = mass (burn_fuel s dt)"
  "fuel_mass (fst (integrate s dt r g)) = fuel_mass (burn_fuel s dt)"
  "dry_mass (fst (integrate s dt r g)) = dry_mass s"
  "thrust (fst (integrate s dt r g)) = thrust (burn_fuel s dt)"
  "max_thrust (fst (integrate s dt r g)) = max_thrust s"
  "max_q (fst (integrate s dt r g)) =
     max (max_q s) (calculate_dynamic_pressure (advance_orientation (burn_fuel s dt) dt) r)"
  by (simp_all add: integrate_def Let_def record_loads_max_q)

lemma integrate_raises: "snd (integrate s dt r g) = None \<longleftrightarrow> max_thrust s \<noteq> 0"
  by (simp add: integrate_def Let_def)

lemma update_fst:
  "fst (update s dt r g) =
     (if dt \<le> 0 then s
      else if snd (integrate s dt r g) = None then ground_collision (fst (integrate s dt r g))
      else fst (integrate s dt r g))"
  by (simp add: update_def Let_def split: prod.splits option.splits)

lemma update_snd:
  "snd (update s dt r g) =
     (if dt \<le> 0 \<or> max_thrust s \<noteq> 0 then Inr (get_telemetry (fst (update s dt r g)))
      else Inl ZeroDivisionError)"
  by (simp add: update_def integrate_def Let_def)

lemma update_fields:
  "mass (fst (update s dt r g)) = (if dt \<le> 0 then mass s else mass (burn_fuel s dt))"
  "fuel_mass (fst (update s dt r g)) =
     (if dt \<le> 0 then fuel_mass s else fuel_mass (burn_fuel s dt))"
  "dry_mass (fst (update s dt r g)) = dry_mass s"
  "thrust (fst (update s dt r g)) = (if dt \<le> 0 then thrust s else thrust (burn_fuel s dt))"
  "max_thrust (fst (update s dt r g)) = max_thrust s"
  "max_q (fst (update s dt r g)) =
     (if dt \<le> 0 then max_q s
      else max (max_q s) (calculate_dynamic_pressure (advance_orientation (burn_fuel s dt) dt) r))"
  by (simp_all add: update_fst integrate_fields)

lemma update_max_q_mono: "max_q s \<le> max_q (fst (update s dt r g))"
  by (simp add: update_fields)

lemma run_ticks_max_q_mono: "max_q s \<le> max_q (run_ticks s ts)"
proof (induction ts arbitrary: s)
  case Nil
  show ?case by simp
next
  case (Cons t ts)
  obtain dt r g where t: "t = (dt, r, g)" by (cases t)
  have "max_q s \<le> max_q (fst (update s dt r g))" by (rule update_max_q_mono)
  also have "\<dots> \<le> max_q (run_ticks (fst (update s dt r g)) ts)" by (rule Cons.IH)
  finally show ?case by (simp add: t)
qed

subsection \<open>Flameout\<close>

text \<open>
  C1. The claim: after a step with a positive time step, an empty tank means no thrust,
  whether the tank was empty on entry or ran empty during the step. The step zeroes the
  thrust only in the branch that burns fuel (line 184). When the tank is already empty
  and the throttle has been raised again (the driver's key handler adds 1000 to the
  thrust whatever the fuel), the branch at line 186 is taken and the thrust survives:
  here the state is the constructor's with an empty tank and a thrust of 1000.
\<close>

theorem flameout_not_enforced_on_empty_tank:
  "fuel_mass (fst (update (init_rocket\<lparr>fuel_mass := 0, mass := 2000, thrust := 1000\<rparr>)
                     (16 / 1000) (1225 / 1000) (981 / 100))) = 0 \<and>
   thrust (fst (update (init_rocket\<lparr>fuel_mass := 0, mass := 2000, thrust := 1000\<rparr>)
                  (16 / 1000) (1225 / 1000) (981 / 100))) = 1000"
  by (simp add: update_fields burn_fuel_def init_rocket_def)

subsection \<open>Mass and fuel\<close>

text \<open>
  C2 as stated: after a step with a positive time step the mass is the dry mass plus
  the fuel mass and the fuel mass is not negative, whatever the three were on entry.
  The second half fails for a negative fuel mass on entry: the clamp at line 180 is
  inside the burning branch, which a negative fuel mass does not enter.
\<close>

theorem fuel_mass_negative_counterexample:
  "\<not> (0 \<le> fuel_mass (fst (update (init_rocket\<lparr>fuel_mass := - 1\<rparr>)
                             1 (1225 / 1000) (981 / 100))))"
  by (simp add: update_fields burn_fuel_def init_rocket_def)

text \<open>
  C2, amended: after a step with a positive time step the mass is the dry mass plus the
  fuel mass whatever the entry values were, and the fuel mass is not negative provided
  it was not negative on entry.
\<close>

theorem mass_fuel_coupling:
  assumes "0 < dt"
  shows "mass (fst (update s dt r g)) =
           dry_mass (fst (update s dt r g)) + fuel_mass (fst (update s dt r g)) \<and>
         (0 \<le> fuel_mass s \<longrightarrow> 0 \<le> fuel_mass (fst (update s dt r g)))"
  using assms by (simp add: update_fields burn_fuel_mass burn_fuel_fuel)

theorem mass_fuel_coupling_witness:
  "(0::real) < 1 \<and> 0 \<le> fuel_mass init_rocket \<and>
   mass (fst (update init_rocket 1 (1225 / 1000) (981 / 100))) =
     dry_mass (fst (update init_rocket 1 (1225 / 1000) (981 / 100))) +
     fuel_mass (fst (update init_rocket 1 (1225 / 1000) (981 / 100))) \<and>
   0 \<le> fuel_mass (fst (update init_rocket 1 (1225 / 1000) (981 / 100)))"
  using mass_fuel_coupling [of 1 init_rocket "1225 / 1000" "981 / 100"]
  by (simp add: init_rocket_def)

subsection \<open>Degenerate time step\<close>

text \<open>
  C3. With a time step that is zero or negative, the step changes no field of the state
  and returns the telemetry of that unchanged state.
\<close>

theorem update_nonpositive_dt_noop:
  assumes "dt \<le> 0"
  shows "update s dt r g = (s, Inr (get_telemetry s))"
  using assms by (simp add: update_def)

theorem update_nonpositive_dt_noop_witness:
  "(0::real) \<le> 0 \<and> (- 1::real) \<le> 0 \<and>
   update init_rocket 0 (1225 / 1000) (981 / 100) = (init_rocket, Inr (get_telemetry init_rocket)) \<and>
   update init_rocket (- 1) (1225 / 1000) (981 / 100) = (init_rocket, Inr (get_telemetry init_rocket))"
  using update_nonpositive_dt_noop [of 0 init_rocket "1225 / 1000" "981 / 100"]
        update_nonpositive_dt_noop [of "- 1" init_rocket "1225 / 1000" "981 / 100"]
  by simp

subsection \<open>The watermark of the dynamic pressure\<close>

text \<open>
  C7. Whatever the time step, the air density and the gravity, the watermark
  \<open>max_q\<close> after a step is at least what it was before; so it never decreases along a
  sequence of steps. Only the constructor sets it back.
\<close>

theorem max_q_monotone:
  "max_q s \<le> max_q (fst (update s dt r g)) \<and> max_q s \<le> max_q (run_ticks s ts)"
  by (simp add: update_max_q_mono run_ticks_max_q_mono)

subsection \<open>Thrust is never raised by a step\<close>

text \<open>
  C10. After a step the thrust is what it was on entry or it is zero; so a thrust
  between zero and \<open>max_thrust\<close> on entry is still in that range after the step.
\<close>

theorem thrust_never_increases:
  "(thrust (fst (update s dt r g)) = thrust s \<or> thrust (fst (update s dt r g)) = 0) \<and>
   (0 \<le> thrust s \<and> thrust s \<le> max_thrust s \<longrightarrow>
      0 \<le> thrust (fst (update s dt r g)) \<and>
      thrust (fst (update s dt r g)) \<le> max_thrust (fst (update s dt r g)))"
  using burn_fuel_thrust [of s dt] by (auto simp: update_fields)

theorem thrust_never_increases_witness:
  "0 \<le> thrust init_rocket \<and> thrust init_rocket \<le> max_thrust init_rocket \<and>
   0 \<le> thrust (fst (update init_rocket 1 (1225 / 1000) (981 / 100))) \<and>
   thrust (fst (update init_rocket 1 (1225 / 1000) (981 / 100)))
     \<le> max_thrust (fst (update init_rocket 1 (1225 / 1000) (981 / 100)))"
  using thrust_never_increases [of init_rocket 1 "1225 / 1000" "981 / 100"]
  by (simp add: init_rocket_def)

subsection \<open>Vector algebra\<close>

lemmas vec_defs = vx_def vy_def vz_def vadd_def vneg_def smul_def vdiv_def dot_def cross_def

lemma vnorm_nonneg: "0 \<le> vnorm v"
  by (simp add: vnorm_def)

lemma vnorm_sq: "(vnorm v)\<^sup>2 = (vx v)\<^sup>2 + (vy v)\<^sup>2 + (vz v)\<^sup>2"
  by (simp add: vnorm_def)

lemma vnorm_zero: "vnorm (0, 0, 0) = 0"
  by (simp add: vnorm_def vec_defs)

lemma vnorm_y_axis: "vnorm (0, b, 0) = \<bar>b\<bar>"
  by (simp add: vnorm_def vec_defs)

lemma vnorm_x_axis: "vnorm (a, 0, 0) = \<bar>a\<bar>"
  by (simp add: vnorm_def vec_defs)

lemma thrust_vector_neutral:
  assumes "pitch s = 0" "yaw s = 0" "roll s = 0"
  shows "get_thrust_vector s = (0, 1, 0)"
  using assms
  by (simp add: get_thrust_vector_def get_rotation_matrix_def Let_def radians_def
      matvec_def matmul_def row0_def row1_def row2_def col0_def col1_def col2_def vec_defs)

lemma drag_no_air: "calculate_drag s 0 = (0, 0, 0)"
  by (simp add: calculate_drag_def Let_def vec_defs)

lemma lift_no_air: "calculate_lift s 0 = (0, 0, 0)"
  by (simp add: calculate_lift_def Let_def vec_defs)

lemma drag_at_rest: "velocity s = (0, 0, 0) \<Longrightarrow> calculate_drag s r = (0, 0, 0)"
  by (simp add: calculate_drag_def Let_def vnorm_zero)

lemma lift_at_rest: "velocity s = (0, 0, 0) \<Longrightarrow> calculate_lift s r = (0, 0, 0)"
  by (simp add: calculate_lift_def Let_def vnorm_zero)

lemma dot_cross_self: "dot v (cross v c) = 0"
  by (simp add: vec_defs algebra_simps)

lemma dot_cross_scaled: "dot v (cross (vdiv v k) t) = 0"
  by (simp add: vec_defs field_simps)

lemma lagrange: "(vnorm (cross u w))\<^sup>2 = (vnorm u)\<^sup>2 * (vnorm w)\<^sup>2 - (dot u w)\<^sup>2"
  by (simp add: vnorm_sq) (simp add: vec_defs power2_eq_square algebra_simps)

lemma vnorm_cross_orth:
  assumes "dot u w = 0"
  shows "vnorm (cross u w) = vnorm u * vnorm w"
proof -
  have "(vnorm (cross u w))\<^sup>2 = (vnorm u * vnorm w)\<^sup>2"
    using assms by (simp add: lagrange power_mult_distrib)
  then show ?thesis
    by (metis vnorm_nonneg mult_nonneg_nonneg power2_eq_iff_nonneg)
qed

lemma pymod_zero: "pymod 0 360 = 0"
  by (simp add: pymod_def)

subsection \<open>Kinematics of one step\<close>

lemma burn_fuel_idle:
  assumes "thrust s = 0"
  shows "burn_fuel s dt = s\<lparr>mass := dry_mass s + fuel_mass s\<rparr>"
  using assms by (simp add: burn_fuel_def)

lemma total_force_free_fall:
  assumes "thrust s = 0"
  shows "total_force s 0 g = (0, - g * mass s, 0)"
  using assms by (simp add: total_force_def Let_def drag_no_air lift_no_air vec_defs)

lemma acceleration_free_fall:
  assumes "thrust s = 0" "0 < mass s"
  shows "acceleration s 0 g = (0, - g, 0)"
  using assms by (simp add: acceleration_def total_force_free_fall vec_defs)

lemma integrate_free_fall:
  assumes "thrust s = 0" "0 < dry_mass s + fuel_mass s" "max_thrust s \<noteq> 0"
  shows "velocity (fst (integrate s dt 0 g)) = vadd (velocity s) (smul dt (0, - g, 0))"
    and "position (fst (integrate s dt 0 g)) =
           vadd (position s) (smul dt (vadd (velocity s) (smul dt (0, - g, 0))))"
proof -
  let ?s2 = "advance_orientation (burn_fuel s dt) dt"
  have m: "0 < mass ?s2" using assms by (simp add: burn_fuel_idle)
  have t: "thrust ?s2 = 0" using assms by (simp add: burn_fuel_idle)
  have a: "acceleration ?s2 0 g = (0, - g, 0)" by (rule acceleration_free_fall [OF t m])
  show "velocity (fst (integrate s dt 0 g)) = vadd (velocity s) (smul dt (0, - g, 0))"
    using assms(3) a by (simp add: integrate_def Let_def euler_step_def)
  show "position (fst (integrate s dt 0 g)) =
           vadd (position s) (smul dt (vadd (velocity s) (smul dt (0, - g, 0))))"
    using assms(3) a by (simp add: integrate_def Let_def euler_step_def)
qed

lemma ground_collision_airborne:
  assumes "\<not> vy (position s) < 0"
  shows "ground_collision s = s"
  using assms by (simp add: ground_collision_def)

lemma update_free_fall:
  assumes "thrust s = 0" "0 < dry_mass s + fuel_mass s" "max_thrust s \<noteq> 0" "0 < dt"
    and "\<not> vy (position (fst (integrate s dt 0 g))) < 0"
  shows "vy (velocity (fst (update s dt 0 g))) = vy (velocity s) - g * dt"
  using assms integrate_free_fall(1) [OF assms(1-3), of dt g]
  by (simp add: update_fst integrate_raises ground_collision_airborne vec_defs)

lemma run_free_fall:
  assumes "thrust s = 0" "0 < dry_mass s + fuel_mass s" "max_thrust s \<noteq> 0" "0 < dt"
    and "no_ground_contact n s dt 0 g"
  shows "vy (velocity (run n s dt 0 g)) = vy (velocity s) - g * real n * dt"
  using assms
proof (induction n arbitrary: s)
  case 0
  show ?case by simp
next
  case (Suc n)
  let ?s' = "fst (update s dt 0 g)"
  have air: "\<not> vy (position (fst (integrate s dt 0 g))) < 0"
    and rest: "no_ground_contact n ?s' dt 0 g"
    using Suc.prems(5) by simp_all
  have step: "vy (velocity ?s') = vy (velocity s) - g * dt"
    by (rule update_free_fall [OF Suc.prems(1-4) air])
  have "vy (velocity (run n ?s' dt 0 g)) = vy (velocity ?s') - g * real n * dt"
    using Suc.prems(1-4) rest
    by (intro Suc.IH) (simp_all add: update_fields burn_fuel_idle)
  then show ?case by (simp add: step algebra_simps)
qed

lemma integrate_kinematics:
  assumes "max_thrust s \<noteq> 0"
  shows "velocity (fst (integrate s dt r g)) =
           vadd (velocity s) (smul dt (acceleration (advance_orientation (burn_fuel s dt) dt) r g))"
    and "position (fst (integrate s dt r g)) =
           vadd (position s) (smul dt (velocity (fst (integrate s dt r g))))"
  using assms by (simp_all add: integrate_def Let_def euler_step_def)

lemma ground_collision_rising:
  assumes "\<not> vy (velocity s) < 0"
  shows "velocity (ground_collision s) = velocity s"
  using assms by (simp add: ground_collision_def Let_def)

lemma burn_fuel_powered:
  assumes "0 < thrust s" "0 \<le> fuel_consumption_rate s * dt" "fuel_consumption_rate s * dt < fuel_mass s"
  shows "burn_fuel s dt =
           s\<lparr>fuel_mass := fuel_mass s - fuel_consumption_rate s * dt,
             mass := dry_mass s + (fuel_mass s - fuel_consumption_rate s * dt)\<rparr>"
  using assms by (simp add: burn_fuel_def Let_def)

lemma advance_orientation_still:
  assumes "pitch s = 0" "yaw s = 0" "roll s = 0" "angular_velocity s = (0, 0, 0)"
  shows "pitch (advance_orientation s dt) = 0"
    and "yaw (advance_orientation s dt) = 0"
    and "roll (advance_orientation s dt) = 0"
  using assms by (simp_all add: advance_orientation_def pymod_def vec_defs)

lemma acceleration_upright_at_rest:
  assumes "pitch s = 0" "yaw s = 0" "roll s = 0" "velocity s = (0, 0, 0)" "0 < mass s"
  shows "acceleration s r g = (0, (thrust s - g * mass s) / mass s, 0)"
  using assms
  by (simp add: acceleration_def total_force_def Let_def thrust_vector_neutral
      drag_at_rest lift_at_rest vec_defs)

lemma integrate_scenario_B:
  assumes "thrust s = 75000" "dry_mass s + fuel_mass s = 5000"
    and "pitch s = 0" "yaw s = 0" "roll s = 0"
    and "angular_velocity s = (0, 0, 0)" "velocity s = (0, 0, 0)"
    and "max_thrust s \<noteq> 0"
    and "0 \<le> fuel_consumption_rate s" "fuel_consumption_rate s < fuel_mass s"
    and "fuel_consumption_rate s < 5000"
  shows "velocity (fst (integrate s 1 r g)) =
           (0, (75000 - g * (5000 - fuel_consumption_rate s)) / (5000 - fuel_consumption_rate s), 0)"
proof -
  let ?s1 = "burn_fuel s 1"
  let ?s2 = "advance_orientation ?s1 1"
  have b: "?s1 = s\<lparr>fuel_mass := fuel_mass s - fuel_consumption_rate s * 1,
                    mass := dry_mass s + (fuel_mass s - fuel_consumption_rate s * 1)\<rparr>"
    using assms by (intro burn_fuel_powered) simp_all
  have m: "mass ?s1 = 5000 - fuel_consumption_rate s"
    using assms(2) by (simp add: b)
  have t: "thrust ?s1 = 75000"
    using assms(1) by (simp add: b)
  have o: "pitch ?s2 = 0" "yaw ?s2 = 0" "roll ?s2 = 0"
    using assms(3-6) by (simp_all add: advance_orientation_still)
  have v: "velocity ?s2 = (0, 0, 0)"
    using assms(7) by simp
  have "acceleration ?s2 r g = (0, (thrust ?s2 - g * mass ?s2) / mass ?s2, 0)"
    using o v assms(11) by (intro acceleration_upright_at_rest) (simp_all add: m)
  then show ?thesis
    using assms(7,8) by (simp add: integrate_kinematics m t vec_defs)
qed

lemma scenario_B_rising:
  fixes k :: real
  assumes "0 \<le> k" "k < 5000"
  shows "0 < (75000 - (981 / 100) * (5000 - k)) / (5000 - k)"
proof -
  have "(981 / 100) * (5000 - k) \<le> (981 / 100) * 5000"
    using assms by simp
  then have "0 < 75000 - (981 / 100) * (5000 - k)" by simp
  then show ?thesis using assms by simp
qed

subsection \<open>Scenario B: powered ascent from rest\<close>

text \<open>
  C5 as stated: from a state with a thrust of 75000, a mass of 5000 with fuel in the
  tank, neutral angles and no velocity, one step with a time step of 1, no air and a
  gravity of 9.81 gives a vertical acceleration of (75000 - 5000 * 9.81) / 5000, about
  5.19, and so a vertical velocity of about 5.19. The constructor's state is such a
  state, and there the step burns 5 kg of fuel before it computes the forces (line 181
  precedes line 203): the mass that enters the weight and the division is 4995, the
  vertical velocity is 75000 / 4995 - 9.81, about 5.205, which is further than 0.01
  from 5.19.
\<close>

theorem scenario_B_counterexample:
  "thrust init_rocket = 75000 \<and> mass init_rocket = 5000 \<and>
   dry_mass init_rocket + fuel_mass init_rocket = 5000 \<and> 0 < fuel_mass init_rocket \<and>
   pitch init_rocket = 0 \<and> yaw init_rocket = 0 \<and> roll init_rocket = 0 \<and>
   velocity init_rocket = (0, 0, 0) \<and>
   vy (velocity (fst (update init_rocket 1 0 (981 / 100)))) = 75000 / 4995 - 981 / 100 \<and>
   \<not> \<bar>vy (velocity (fst (update init_rocket 1 0 (981 / 100)))) - 519 / 100\<bar> \<le> 1 / 100"
proof -
  have v: "velocity (fst (integrate init_rocket 1 0 (981 / 100))) =
             (0, (75000 - (981 / 100) * (5000 - 5)) / (5000 - 5), 0)"
    using integrate_scenario_B [of init_rocket 0 "981 / 100"]
    by (simp add: init_rocket_def)
  have "velocity (fst (update init_rocket 1 0 (981 / 100))) =
          velocity (fst (integrate init_rocket 1 0 (981 / 100)))"
    by (simp add: update_fst integrate_raises ground_collision_rising v vec_defs)
  then show ?thesis
    by (simp add: v vec_defs) (simp add: init_rocket_def)
qed

text \<open>
  C5, amended: from a state with a thrust of 75000, dry mass plus fuel mass equal to
  5000, neutral angles, no angular velocity, no velocity, a nonzero \<open>max_thrust\<close> and
  a fuel consumption rate \<open>k\<close> with \<open>0 \<le> k\<close>, \<open>k\<close> below the fuel mass and below 5000,
  one step with a time step of 1, no air and a gravity of 9.81 leaves the velocity
  \<open>(0, (75000 - 9.81 * (5000 - k)) / (5000 - k), 0)\<close>: the acceleration is computed with
  the mass after this step's fuel burn. With the constructor's rate of 5 that is
  75000 / 4995 - 9.81; it is 5.19 only for a rate of zero.
\<close>

theorem scenario_B_velocity:
  assumes "thrust s = 75000" "dry_mass s + fuel_mass s = 5000"
    and "pitch s = 0" "yaw s = 0" "roll s = 0"
    and "angular_velocity s = (0, 0, 0)" "velocity s = (0, 0, 0)"
    and "max_thrust s \<noteq> 0"
    and "0 \<le> fuel_consumption_rate s" "fuel_consumption_rate s < fuel_mass s"
    and "fuel_consumption_rate s < 5000"
  shows "velocity (fst (update s 1 0 (981 / 100))) =
           (0, (75000 - (981 / 100) * (5000 - fuel_consumption_rate s))
                 / (5000 - fuel_consumption_rate s), 0)"
proof -
  let ?p = "fst (integrate s 1 0 (981 / 100))"
  have v: "velocity ?p =
             (0, (75000 - (981 / 100) * (5000 - fuel_consumption_rate s))
                   / (5000 - fuel_consumption_rate s), 0)"
    by (rule integrate_scenario_B [OF assms])
  have "\<not> vy (velocity ?p) < 0"
    using scenario_B_rising [OF assms(9,11)] by (simp add: v vec_defs)
  then have "velocity (ground_collision ?p) = velocity ?p"
    by (rule ground_collision_rising)
  then show ?thesis
    using assms(8) by (simp add: update_fst integrate_raises v)
qed

theorem scenario_B_velocity_witness:
  "thrust init_rocket = 75000 \<and> dry_mass init_rocket + fuel_mass init_rocket = 5000 \<and>
   pitch init_rocket = 0 \<and> yaw init_rocket = 0 \<and> roll init_rocket = 0 \<and>
   angular_velocity init_rocket = (0, 0, 0) \<and> velocity init_rocket = (0, 0, 0) \<and>
   max_thrust init_rocket \<noteq> 0 \<and> 0 \<le> fuel_consumption_rate init_rocket \<and>
   fuel_consumption_rate init_rocket < fuel_mass init_rocket \<and>
   fuel_consumption_rate init_rocket < 5000 \<and>
   velocity (fst (update init_rocket 1 0 (981 / 100))) =
     (0, (75000 - (981 / 100) * 4995) / 4995, 0)"
  using scenario_B_velocity [of init_rocket]
  by (simp add: init_rocket_def)

subsection \<open>Free fall\<close>

lemma integrate_massless:
  assumes "thrust s = 0" "dry_mass s + fuel_mass s \<le> 0" "max_thrust s \<noteq> 0"
  shows "velocity (fst (integrate s dt r g)) = vadd (velocity s) (smul dt (0, 0, 0))"
  using assms by (simp add: integrate_kinematics acceleration_def burn_fuel_idle)

text \<open>
  C6 as stated: with no thrust and no air, after \<open>n\<close> steps of a positive time step
  during which the height never drops below zero, the vertical velocity has decreased
  by gravity times \<open>n\<close> times the time step. The guard at line 207 makes the
  acceleration zero when the mass is not positive, so a rocket whose dry mass and fuel
  mass are zero does not fall at all.
\<close>

theorem free_fall_massless_counterexample:
  "thrust (init_rocket\<lparr>thrust := 0, dry_mass := 0, fuel_mass := 0\<rparr>) = 0 \<and>
   no_ground_contact 1 (init_rocket\<lparr>thrust := 0, dry_mass := 0, fuel_mass := 0\<rparr>) 1 0 (981 / 100) \<and>
   vy (velocity (run 1 (init_rocket\<lparr>thrust := 0, dry_mass := 0, fuel_mass := 0\<rparr>) 1 0 (981 / 100)))
     \<noteq> vy (velocity (init_rocket\<lparr>thrust := 0, dry_mass := 0, fuel_mass := 0\<rparr>)) - (981 / 100) * 1 * 1"
proof -
  let ?s = "init_rocket\<lparr>thrust := 0, dry_mass := 0, fuel_mass := 0\<rparr>"
  have v: "velocity (fst (integrate ?s 1 0 (981 / 100))) = (0, 0, 0)"
    using integrate_massless [of ?s 1 0 "981 / 100"]
    by (simp add: init_rocket_def vec_defs)
  have p: "position (fst (integrate ?s 1 0 (981 / 100))) = (0, 500, 0)"
    using integrate_kinematics(2) [of ?s 1 0 "981 / 100"]
    by (simp add: v) (simp add: init_rocket_def vec_defs)
  have air: "\<not> vy (position (fst (integrate ?s 1 0 (981 / 100)))) < 0"
    by (simp add: p vec_defs)
  have "velocity (fst (update ?s 1 0 (981 / 100))) = (0, 0, 0)"
    using air by (simp add: update_fst ground_collision_airborne v)
  then show ?thesis
    using air by (simp add: vec_defs) (simp add: init_rocket_def)
qed

text \<open>
  C6, amended: with no thrust, no air, a positive mass (dry mass plus fuel mass) and a
  nonzero \<open>max_thrust\<close>, after \<open>n\<close> steps of a positive time step during which the
  height never drops below zero, the vertical velocity has decreased by exactly gravity
  times \<open>n\<close> times the time step. Scenario A: from the constructor's state with the
  thrust set to zero, one step with a time step of 1, no air and a gravity of 9.81
  gives a vertical velocity of -9.81.
\<close>

theorem free_fall_velocity:
  "(thrust s = 0 \<and> 0 < dt \<and> 0 < dry_mass s + fuel_mass s \<and> max_thrust s \<noteq> 0 \<and>
    no_ground_contact n s dt 0 g
      \<longrightarrow> vy (velocity (run n s dt 0 g)) = vy (velocity s) - g * real n * dt) \<and>
   vy (velocity (fst (update (init_rocket\<lparr>thrust := 0\<rparr>) 1 0 (981 / 100)))) = - (981 / 100)"
proof -
  let ?s = "init_rocket\<lparr>thrust := 0\<rparr>"
  have h: "thrust ?s = 0" "0 < dry_mass ?s + fuel_mass ?s" "max_thrust ?s \<noteq> 0"
    by (simp_all add: init_rocket_def)
  have "position (fst (integrate ?s 1 0 (981 / 100))) = (0, 500 - 981 / 100, 0)"
    using integrate_free_fall(2) [OF h, of 1 "981 / 100"]
    by (simp add: init_rocket_def vec_defs)
  then have air: "\<not> vy (position (fst (integrate ?s 1 0 (981 / 100)))) < 0"
    by (simp add: vec_defs)
  have "vy (velocity (fst (update ?s 1 0 (981 / 100)))) = vy (velocity ?s) - (981 / 100) * 1"
    by (rule update_free_fall [OF h _ air]) simp
  then have A: "vy (velocity (fst (update ?s 1 0 (981 / 100)))) = - (981 / 100)"
    by (simp add: init_rocket_def vec_defs)
  show ?thesis
    using run_free_fall [of s dt n g] A by blast
qed

theorem free_fall_velocity_witness:
  "thrust (init_rocket\<lparr>thrust := 0\<rparr>) = 0 \<and> (0::real) < 1 / 2 \<and>
   0 < dry_mass (init_rocket\<lparr>thrust := 0\<rparr>) + fuel_mass (init_rocket\<lparr>thrust := 0\<rparr>) \<and>
   max_thrust (init_rocket\<lparr>thrust := 0\<rparr>) \<noteq> 0 \<and>
   no_ground_contact 2 (init_rocket\<lparr>thrust := 0\<rparr>) (1 / 2) 0 (981 / 100) \<and>
   vy (velocity (run 2 (init_rocket\<lparr>thrust := 0\<rparr>) (1 / 2) 0 (981 / 100))) = - (981 / 100)"
proof -
  let ?s = "init_rocket\<lparr>thrust := 0\<rparr>"
  let ?g = "981 / 100 :: real"
  let ?s' = "fst (update ?s (1 / 2) 0 ?g)"
  have h: "thrust ?s = 0" "0 < dry_mass ?s + fuel_mass ?s" "max_thrust ?s \<noteq> 0"
    by (simp_all add: init_rocket_def)
  have h': "thrust ?s' = 0" "0 < dry_mass ?s' + fuel_mass ?s'" "max_thrust ?s' \<noteq> 0"
    by (simp_all add: update_fields burn_fuel_idle) (simp_all add: init_rocket_def)
  have p1: "position (fst (integrate ?s (1 / 2) 0 ?g)) = (0, 500 - 981 / 400, 0)"
    and v1: "velocity (fst (integrate ?s (1 / 2) 0 ?g)) = (0, - (981 / 200), 0)"
    using integrate_free_fall [OF h, of "1 / 2" ?g]
    by (simp_all add: init_rocket_def vec_defs)
  have air1: "\<not> vy (position (fst (integrate ?s (1 / 2) 0 ?g))) < 0"
    by (simp add: p1 vec_defs)
  have s': "velocity ?s' = (0, - (981 / 200), 0)" "position ?s' = (0, 500 - 981 / 400, 0)"
    using air1 by (simp_all add: update_fst integrate_raises ground_collision_airborne p1 v1)
  have "position (fst (integrate ?s' (1 / 2) 0 ?g)) = (0, 500 - 981 / 400 - 981 / 200, 0)"
    using integrate_free_fall(2) [OF h', of "1 / 2" ?g]
    by (simp add: s' vec_defs)
  then have air2: "\<not> vy (position (fst (integrate ?s' (1 / 2) 0 ?g))) < 0"
    by (simp add: vec_defs)
  have n: "no_ground_contact 2 ?s (1 / 2) 0 ?g"
    using air1 air2 by (simp add: numeral_2_eq_2)
  have "vy (velocity (run 2 ?s (1 / 2) 0 ?g)) = vy (velocity ?s) - ?g * real 2 * (1 / 2)"
    using free_fall_velocity [of ?s "1 / 2" 2 ?g] h n by simp
  then show ?thesis
    using h n by (simp add: init_rocket_def vec_defs)
qed

subsection \<open>Ground contact\<close>

text \<open>
  C8. In a step with a positive time step that reaches the ground test (no exception
  before it), let \<open>p\<close> be the state after line 224. If the height of \<open>p\<close> is below
  zero and its vertical velocity is negative, then after the step the height is zero,
  the vertical velocity is -0.3 times that of \<open>p\<close>, and the two horizontal components
  are 0.7 times those of \<open>p\<close>. If the height of \<open>p\<close> is below zero and its vertical
  velocity is not negative, the height is zero after the step and the velocity is that
  of \<open>p\<close>.
\<close>

theorem ground_bounce:
  assumes "0 < dt" and "snd (integrate s dt r g) = None"
  shows "(vy (position (fst (integrate s dt r g))) < 0 \<and>
          vy (velocity (fst (integrate s dt r g))) < 0 \<longrightarrow>
            vy (position (fst (update s dt r g))) = 0 \<and>
            vy (velocity (fst (update s dt r g))) =
              - (3 / 10) * vy (velocity (fst (integrate s dt r g))) \<and>
            vx (velocity (fst (update s dt r g))) =
              (7 / 10) * vx (velocity (fst (integrate s dt r g))) \<and>
            vz (velocity (fst (update s dt r g))) =
              (7 / 10) * vz (velocity (fst (integrate s dt r g)))) \<and>
         (vy (position (fst (integrate s dt r g))) < 0 \<and>
          \<not> vy (velocity (fst (integrate s dt r g))) < 0 \<longrightarrow>
            vy (position (fst (update s dt r g))) = 0 \<and>
            velocity (fst (update s dt r g)) = velocity (fst (integrate s dt r g)))"
  using assms by (simp add: update_fst ground_collision_def Let_def vec_defs)

theorem ground_bounce_witness:
  "(0::real) < 1 \<and>
   snd (integrate (init_rocket\<lparr>thrust := 0, velocity := (10, 0, 20), position := (3, 1, 0)\<rparr>)
          1 0 (981 / 100)) = None \<and>
   vy (position (fst (integrate (init_rocket\<lparr>thrust := 0, velocity := (10, 0, 20), position := (3, 1, 0)\<rparr>)
          1 0 (981 / 100)))) < 0 \<and>
   vy (velocity (fst (integrate (init_rocket\<lparr>thrust := 0, velocity := (10, 0, 20), position := (3, 1, 0)\<rparr>)
          1 0 (981 / 100)))) < 0 \<and>
   vy (position (fst (update (init_rocket\<lparr>thrust := 0, velocity := (10, 0, 20), position := (3, 1, 0)\<rparr>)
          1 0 (981 / 100)))) = 0 \<and>
   vx (velocity (fst (update (init_rocket\<lparr>thrust := 0, velocity := (10, 0, 20), position := (3, 1, 0)\<rparr>)
          1 0 (981 / 100)))) = 7 \<and>
   vy (velocity (fst (update (init_rocket\<lparr>thrust := 0, velocity := (10, 0, 20), position := (3, 1, 0)\<rparr>)
          1 0 (981 / 100)))) = 2943 / 1000 \<and>
   vz (velocity (fst (update (init_rocket\<lparr>thrust := 0, velocity := (10, 0, 20), position := (3, 1, 0)\<rparr>)
          1 0 (981 / 100)))) = 14 \<and>
   snd (integrate (init_rocket\<lparr>position := (0, - 10, 0)\<rparr>) 1 0 (981 / 100)) = None \<and>
   vy (position (fst (integrate (init_rocket\<lparr>position := (0, - 10, 0)\<rparr>) 1 0 (981 / 100)))) < 0 \<and>
   \<not> vy (velocity (fst (integrate (init_rocket\<lparr>position := (0, - 10, 0)\<rparr>) 1 0 (981 / 100)))) < 0 \<and>
   vy (position (fst (update (init_rocket\<lparr>position := (0, - 10, 0)\<rparr>) 1 0 (981 / 100)))) = 0 \<and>
   velocity (fst (update (init_rocket\<lparr>position := (0, - 10, 0)\<rparr>) 1 0 (981 / 100))) =
     (0, (75000 - (981 / 100) * 4995) / 4995, 0)"
proof -
  let ?b = "init_rocket\<lparr>thrust := 0, velocity := (10, 0, 20), position := (3, 1, 0)\<rparr>"
  let ?c = "init_rocket\<lparr>position := (0, - 10, 0)\<rparr>"
  let ?g = "981 / 100 :: real"
  have hb: "thrust ?b = 0" "0 < dry_mass ?b + fuel_mass ?b" "max_thrust ?b \<noteq> 0"
    by (simp_all add: init_rocket_def)
  have nb: "snd (integrate ?b 1 0 ?g) = None"
    by (simp add: integrate_raises init_rocket_def)
  have vb: "velocity (fst (integrate ?b 1 0 ?g)) = (10, - (981 / 100), 20)"
    and pb: "position (fst (integrate ?b 1 0 ?g)) = (13, 1 - 981 / 100, 20)"
    using integrate_free_fall [OF hb, of 1 ?g]
    by (simp_all add: init_rocket_def vec_defs)
  have nc: "snd (integrate ?c 1 0 ?g) = None"
    by (simp add: integrate_raises init_rocket_def)
  have vc: "velocity (fst (integrate ?c 1 0 ?g)) = (0, (75000 - (981 / 100) * 4995) / 4995, 0)"
    using integrate_scenario_B [of ?c 0 ?g]
    by (simp add: init_rocket_def)
  have pc: "position (fst (integrate ?c 1 0 ?g)) =
              (0, - 10 + (75000 - (981 / 100) * 4995) / 4995, 0)"
    using integrate_kinematics(2) [of ?c 1 0 ?g]
    by (simp add: vc) (simp add: init_rocket_def vec_defs)
  show ?thesis
    using ground_bounce [of 1 ?b 0 ?g, OF _ nb] ground_bounce [of 1 ?c 0 ?g, OF _ nc]
    by (simp add: nb nc vb pb vc pc vec_defs)
qed

subsection \<open>Telemetry and the reference density\<close>

lemma update_returns_telemetry:
  assumes "update s dt r g = (p, Inr t)"
  shows "t = get_telemetry p"
proof -
  have "fst (update s dt r g) = p" and "snd (update s dt r g) = Inr t"
    using assms by simp_all
  then show ?thesis
    by (simp add: update_snd split: if_splits)
qed

lemma dynamic_pressure_at_rest:
  "velocity s = (0, 0, 0) \<Longrightarrow> calculate_dynamic_pressure s r = 0"
  by (simp add: calculate_dynamic_pressure_def Let_def vnorm_zero)

lemma integrate_at_rest:
  assumes "velocity s = (0, 0, 0)"
  shows "integrate s dt r g = integrate s dt 0 g"
proof -
  let ?s2 = "advance_orientation (burn_fuel s dt) dt"
  have v: "velocity ?s2 = (0, 0, 0)" using assms by simp
  have f: "total_force ?s2 r g = total_force ?s2 0 g"
    by (simp add: total_force_def Let_def drag_at_rest [OF v] lift_at_rest [OF v])
  have l: "record_loads ?s2 r g = record_loads ?s2 0 g"
    by (simp add: record_loads_def Let_def f dynamic_pressure_at_rest [OF v])
  show ?thesis
    by (simp add: integrate_def Let_def acceleration_def f l)
qed

lemma update_at_rest:
  assumes "velocity s = (0, 0, 0)"
  shows "update s dt r g = update s dt 0 g"
  by (simp add: update_def integrate_at_rest [OF assms, of dt r g])

text \<open>
  C4. Whenever a step returns a snapshot \<open>t\<close> and leaves the state \<open>p\<close>, the fields
  \<^verbatim>\<open>drag\<close>, \<^verbatim>\<open>lift\<close> and \<^verbatim>\<open>dynamic_pressure\<close> of \<open>t\<close> are the aerodynamic
  functions of \<open>p\<close> at the density 1.225; the dynamic pressure is
  0.5 * 1.225 * |velocity|^2. Any other step that leaves the same state \<open>p\<close>,
  whatever its air density, returns the same three fields.
\<close>

theorem telemetry_reference_density:
  assumes "update s dt r g = (p, Inr t)" and "update s' dt' r' g' = (p, Inr t')"
  shows "tel_drag t = vnorm (calculate_drag p (1225 / 1000)) \<and>
         tel_lift t = vnorm (calculate_lift p (1225 / 1000)) \<and>
         tel_dynamic_pressure t = calculate_dynamic_pressure p (1225 / 1000) \<and>
         tel_dynamic_pressure t = (1 / 2) * (1225 / 1000) * (vnorm (velocity p))\<^sup>2 \<and>
         tel_drag t' = tel_drag t \<and> tel_lift t' = tel_lift t \<and>
         tel_dynamic_pressure t' = tel_dynamic_pressure t"
proof -
  have "t = get_telemetry p" and "t' = get_telemetry p"
    using assms by (auto dest: update_returns_telemetry)
  then show ?thesis
    by (simp add: get_telemetry_def Let_def calculate_dynamic_pressure_def)
qed

theorem telemetry_reference_density_witness:
  "update init_rocket 1 (1225 / 1000) (981 / 100) =
     (fst (update init_rocket 1 0 (981 / 100)),
      Inr (get_telemetry (fst (update init_rocket 1 0 (981 / 100))))) \<and>
   update init_rocket 1 0 (981 / 100) =
     (fst (update init_rocket 1 0 (981 / 100)),
      Inr (get_telemetry (fst (update init_rocket 1 0 (981 / 100))))) \<and>
   tel_dynamic_pressure (get_telemetry (fst (update init_rocket 1 0 (981 / 100)))) =
     (1 / 2) * (1225 / 1000) * (vnorm (velocity (fst (update init_rocket 1 0 (981 / 100)))))\<^sup>2 \<and>
   tel_drag (get_telemetry (fst (update init_rocket 1 0 (981 / 100)))) =
     vnorm (calculate_drag (fst (update init_rocket 1 0 (981 / 100))) (1225 / 1000))"
proof -
  let ?p = "fst (update init_rocket 1 0 (981 / 100))"
  have a: "update init_rocket 1 0 (981 / 100) = (?p, Inr (get_telemetry ?p))"
    by (rule prod_eqI) (simp_all add: update_snd init_rocket_def)
  have b: "update init_rocket 1 (1225 / 1000) (981 / 100) = (?p, Inr (get_telemetry ?p))"
    using a update_at_rest [of init_rocket 1 "1225 / 1000" "981 / 100"]
    by (simp add: init_rocket_def)
  show ?thesis
    using telemetry_reference_density [OF b a] a b by simp
qed

subsection \<open>Lift\<close>

lemma vnorm_vdiv: "vnorm (vdiv w k) = vnorm w / \<bar>k\<bar>"
proof -
  have "(vx w / k)\<^sup>2 + (vy w / k)\<^sup>2 + (vz w / k)\<^sup>2 = ((vx w)\<^sup>2 + (vy w)\<^sup>2 + (vz w)\<^sup>2) / k\<^sup>2"
    by (simp add: power_divide add_divide_distrib)
  then show ?thesis
    by (simp add: vnorm_def vdiv_def vx_def vy_def vz_def real_sqrt_divide)
qed

lemma vnorm_unit:
  assumes "0 < vnorm w"
  shows "vnorm (vdiv w (vnorm w)) = 1"
  using assms by (simp add: vnorm_vdiv)

lemma dot_smul_vdiv: "dot (smul m (vdiv w n)) v = m * dot w v / n"
  by (simp add: vec_defs algebra_simps add_divide_distrib)

lemma dot_cross_left: "dot (cross v c) v = 0"
  by (simp add: vec_defs algebra_simps)

lemma clip_unit_nonneg: "0 \<le> x \<Longrightarrow> clip x 0 1 = min x 1"
  by (simp add: clip_def)

lemma lift_direction_norm:
  "vnorm (cross v (cross (vdiv v k) t)) = vnorm v * vnorm (cross (vdiv v k) t)"
  by (rule vnorm_cross_orth) (rule dot_cross_scaled)

lemma calculate_lift_zero:
  assumes "vnorm (velocity s) \<le> 1 \<or>
           vnorm (cross (vdiv (velocity s) (vnorm (velocity s))) (get_thrust_vector s)) \<le> 1 / 100"
  shows "calculate_lift s r = (0, 0, 0)"
  using assms by (auto simp: calculate_lift_def Let_def)

lemma calculate_lift_nonzero:
  assumes "\<not> (vnorm (velocity s) \<le> 1 \<or>
           vnorm (cross (vdiv (velocity s) (vnorm (velocity s))) (get_thrust_vector s)) \<le> 1 / 100)"
  shows "0 < vnorm (cross (velocity s)
                 (cross (vdiv (velocity s) (vnorm (velocity s))) (get_thrust_vector s)))"
    and "calculate_lift s r =
         smul ((1 / 2) * r * (vnorm (velocity s))\<^sup>2 *
               \<bar>2 * pi * sin (arcsin (clip (vnorm (cross (vdiv (velocity s) (vnorm (velocity s)))
                                                   (get_thrust_vector s))) 0 1))\<bar> *
               reference_area s)
              (vdiv (cross (velocity s)
                      (cross (vdiv (velocity s) (vnorm (velocity s))) (get_thrust_vector s)))
                    (vnorm (cross (velocity s)
                      (cross (vdiv (velocity s) (vnorm (velocity s))) (get_thrust_vector s)))))"
proof -
  let ?v = "velocity s"
  let ?c = "cross (vdiv ?v (vnorm ?v)) (get_thrust_vector s)"
  have v: "1 < vnorm ?v" and c: "1 / 100 < vnorm ?c"
    using assms by auto
  have n: "vnorm (cross ?v ?c) = vnorm ?v * vnorm ?c"
    by (rule lift_direction_norm)
  show pos: "0 < vnorm (cross ?v ?c)"
    using v c by (simp add: n)
  have cl: "clip (vnorm ?c) 0 1 = min (vnorm ?c) 1"
    by (rule clip_unit_nonneg) (rule vnorm_nonneg)
  show "calculate_lift s r =
         smul ((1 / 2) * r * (vnorm ?v)\<^sup>2 * \<bar>2 * pi * sin (arcsin (clip (vnorm ?c) 0 1))\<bar> *
               reference_area s)
              (vdiv (cross ?v ?c) (vnorm (cross ?v ?c)))"
    by (simp only: calculate_lift_def Let_def v c pos if_True cl)
qed

lemma calculate_lift_orthogonal: "dot (calculate_lift s r) (velocity s) = 0"
proof (cases "vnorm (velocity s) \<le> 1 \<or>
           vnorm (cross (vdiv (velocity s) (vnorm (velocity s))) (get_thrust_vector s)) \<le> 1 / 100")
  case True
  then show ?thesis
    by (simp add: calculate_lift_zero vec_defs)
next
  case False
  show ?thesis
    by (simp only: calculate_lift_nonzero(2) [OF False] dot_smul_vdiv dot_cross_left)
qed

lemma vnorm_z_axis: "vnorm (0, 0, c) = \<bar>c\<bar>"
  by (simp add: vnorm_def vec_defs)

text \<open>
  C9. Let \<open>v\<close> be the velocity and \<open>c\<close> the cross product of the normalised velocity
  with the thrust direction. When \<open>|v| \<le> 1\<close> or \<open>|c| \<le> 0.01\<close> the lift is the zero
  vector. Otherwise the cross product of \<open>v\<close> with \<open>c\<close> has a positive norm (the
  normalisation at line 154 does not divide by zero, and the guard at line 153 always
  passes), and the lift is \<open>0.5 * density * |v|^2 * |2 * pi * sin (asin (clamp |c| 0 1))| * area\<close>
  times the unit vector along that cross product. In every case the lift is orthogonal
  to the velocity.
\<close>

theorem lift_postcondition:
  "(let v = velocity s;
        c = cross (vdiv v (vnorm v)) (get_thrust_vector s)
    in (vnorm v \<le> 1 \<or> vnorm c \<le> 1 / 100 \<longrightarrow> calculate_lift s r = (0, 0, 0)) \<and>
       (\<not> (vnorm v \<le> 1 \<or> vnorm c \<le> 1 / 100) \<longrightarrow>
          0 < vnorm (cross v c) \<and>
          vnorm (vdiv (cross v c) (vnorm (cross v c))) = 1 \<and>
          calculate_lift s r =
            smul ((1 / 2) * r * (vnorm v)\<^sup>2 * \<bar>2 * pi * sin (arcsin (clip (vnorm c) 0 1))\<bar> *
                  reference_area s)
                 (vdiv (cross v c) (vnorm (cross v c)))) \<and>
       dot (calculate_lift s r) v = 0)"
  unfolding Let_def
  using calculate_lift_zero [of s r] calculate_lift_nonzero(1) [of s]
    calculate_lift_nonzero(2) [of s r]
    vnorm_unit [of "cross (velocity s)
      (cross (vdiv (velocity s) (vnorm (velocity s))) (get_thrust_vector s))"]
    calculate_lift_orthogonal [of s r]
  by blast

theorem lift_postcondition_witness:
  "\<not> (vnorm (velocity (init_rocket\<lparr>velocity := (2, 0, 0)\<rparr>)) \<le> 1 \<or>
      vnorm (cross (vdiv (velocity (init_rocket\<lparr>velocity := (2, 0, 0)\<rparr>))
                         (vnorm (velocity (init_rocket\<lparr>velocity := (2, 0, 0)\<rparr>))))
                   (get_thrust_vector (init_rocket\<lparr>velocity := (2, 0, 0)\<rparr>))) \<le> 1 / 100) \<and>
   calculate_lift (init_rocket\<lparr>velocity := (2, 0, 0)\<rparr>) (1225 / 1000) = (0, - (49 * pi), 0) \<and>
   vnorm (velocity init_rocket) \<le> 1 \<and>
   calculate_lift init_rocket (1225 / 1000) = (0, 0, 0)"
proof -
  let ?l = "init_rocket\<lparr>velocity := (2, 0, 0)\<rparr>"
  have t: "get_thrust_vector ?l = (0, 1, 0)"
    by (rule thrust_vector_neutral) (simp_all add: init_rocket_def)
  have a: "reference_area ?l = 10" by (simp add: init_rocket_def)
  have z: "vnorm (velocity init_rocket) = 0"
    by (simp add: init_rocket_def vnorm_zero)
  have h: "\<not> (vnorm (velocity ?l) \<le> 1 \<or>
      vnorm (cross (vdiv (velocity ?l) (vnorm (velocity ?l))) (get_thrust_vector ?l)) \<le> 1 / 100)"
    by (simp add: t vnorm_x_axis vnorm_z_axis vec_defs)
  have l: "calculate_lift ?l (1225 / 1000) = (0, - (49 * pi), 0)"
    using lift_postcondition [of ?l "1225 / 1000"]
    by (simp add: Let_def t a vnorm_x_axis vnorm_y_axis vnorm_z_axis clip_def vec_defs)
  have "calculate_lift init_rocket (1225 / 1000) = (0, 0, 0)"
    using lift_postcondition [of init_rocket "1225 / 1000"]
    by (simp add: Let_def z)
  then show ?thesis
    using l h z by simp
qed

end
